theory Spec2Isabelle
  imports Main
begin

section \<open>The share/embed panel of \<^verbatim>\<open>assets/js/share-panel.js\<close>\<close>

text \<open>
  The script keeps two module variables (\<^verbatim>\<open>currentStoryUrl\<close>, \<^verbatim>\<open>availableStories\<close>) and a
  handful of DOM elements it looked up once by id. The embedding below makes that state a
  record, every handler a function on it, and every exception a value.

  JavaScript strings are modelled as \<^typ>\<open>string\<close>. What the script does not define itself
  (the \<^verbatim>\<open>URL\<close> constructor, \<^verbatim>\<open>JSON.parse\<close>, the clipboard) is a parameter of the model.
\<close>

subsection \<open>Characters and small string helpers\<close>

definition newline :: char where
  "newline = CHR 0x0A"

definition dquote :: char where
  "dquote = CHR 0x22"

text \<open>The character class \<^verbatim>\<open>\d\<close> of a JavaScript regular expression: the ten ASCII digits.\<close>

definition is_digit :: "char \<Rightarrow> bool" where
  "is_digit c = (c \<in> set ''0123456789'')"

text \<open>White space removed by \<^verbatim>\<open>String.prototype.trim\<close>, restricted to its ASCII members
  (tab, line feed, vertical tab, form feed, carriage return, space).\<close>

definition is_space :: "char \<Rightarrow> bool" where
  "is_space c = (c \<in> set [CHR 0x09, CHR 0x0A, CHR 0x0B, CHR 0x0C, CHR 0x0D, CHR 0x20])"

definition trim :: "string \<Rightarrow> string" where
  "trim s = rev (dropWhile is_space (rev (dropWhile is_space s)))"

text \<open>\<^verbatim>\<open>s.split(c)\<close> for a one-character separator: never the empty list.\<close>

fun split_on :: "char \<Rightarrow> string \<Rightarrow> string list" where
  "split_on c [] = [[]]"
| "split_on c (x # xs) =
     (if x = c then [] # split_on c xs
      else (case split_on c xs of
              [] \<Rightarrow> [[x]]
            | p # ps \<Rightarrow> (x # p) # ps))"

text \<open>\<^verbatim>\<open>s.split(/[?#]/)[0]\<close>: the part of \<open>s\<close> before its first \<^verbatim>\<open>?\<close> or \<^verbatim>\<open>#\<close>.\<close>

definition before_query_or_hash :: "string \<Rightarrow> string" where
  "before_query_or_hash s = takeWhile (\<lambda>c. c \<noteq> CHR ''?'' \<and> c \<noteq> CHR ''#'') s"

subsection \<open>Exceptions\<close>

datatype js_error = TypeError | SyntaxError

subsection \<open>The platform's URL object\<close>

text \<open>
  A parsed URL as the script sees it. \<open>url_prefix\<close> is the serialisation of everything in
  front of the query (scheme, authority and path), as \<^verbatim>\<open>toString\<close> writes it once query
  and fragment have been cleared; \<open>url_query\<close> and \<open>url_fragment\<close> are
  absent (\<open>None\<close>) or present without their leading \<^verbatim>\<open>?\<close> and \<^verbatim>\<open>#\<close>;
  \<open>url_params\<close> is the list held by the \<^verbatim>\<open>searchParams\<close> object of the URL.
\<close>

record url =
  url_origin :: string
  url_pathname :: string
  url_prefix :: string
  url_query :: "string option"
  url_fragment :: "string option"
  url_params :: "(string \<times> string) list"

text \<open>\<^verbatim>\<open>urlObj.search = ''\<close>: the query becomes absent and the parameter list is emptied.\<close>

definition clear_search :: "url \<Rightarrow> url" where
  "clear_search u = u\<lparr>url_query := None, url_params := []\<rparr>"

text \<open>\<^verbatim>\<open>urlObj.hash = ''\<close>: the fragment becomes absent.\<close>

definition clear_hash :: "url \<Rightarrow> url" where
  "clear_hash u = u\<lparr>url_fragment := None\<rparr>"

text \<open>The \<^verbatim>\<open>application/x-www-form-urlencoded\<close> serialiser, on bytes: letters, digits and
  \<^verbatim>\<open>*-._\<close> stay, a space becomes \<^verbatim>\<open>+\<close>, every other byte becomes \<^verbatim>\<open>%XX\<close>.\<close>

definition form_safe :: "char \<Rightarrow> bool" where
  "form_safe c =
     (c \<in> set ''abcdefghijklmnopqrstuvwxyzABCDEFGHIJKLMNOPQRSTUVWXYZ0123456789*-._'')"

definition hex_digit :: "nat \<Rightarrow> char" where
  "hex_digit n = ''0123456789ABCDEF'' ! (n mod 16)"

definition form_encode_byte :: "char \<Rightarrow> string" where
  "form_encode_byte c =
     (if form_safe c then [c]
      else if c = CHR '' '' then ''+''
      else [CHR ''%'', hex_digit (of_char c div 16), hex_digit (of_char c)])"

definition form_encode :: "string \<Rightarrow> string" where
  "form_encode s = concat (map form_encode_byte s)"

fun form_serialize :: "(string \<times> string) list \<Rightarrow> string" where
  "form_serialize [] = []"
| "form_serialize [(n, v)] = form_encode n @ ''='' @ form_encode v"
| "form_serialize ((n, v) # ps) = form_encode n @ ''='' @ form_encode v @ ''&'' @ form_serialize ps"

text \<open>\<^verbatim>\<open>searchParams.set(name, value)\<close>: the first pair named \<open>name\<close> takes the value and the
  others of that name go; without one the pair is appended. The URL's query is then the
  serialised list, absent when that is empty.\<close>

fun params_set :: "string \<Rightarrow> string \<Rightarrow> (string \<times> string) list \<Rightarrow> (string \<times> string) list" where
  "params_set name v [] = [(name, v)]"
| "params_set name v ((n, w) # ps) =
     (if n = name then (n, v) # filter (\<lambda>p. fst p \<noteq> name) ps
      else (n, w) # params_set name v ps)"

definition searchParams_set :: "string \<Rightarrow> string \<Rightarrow> url \<Rightarrow> url" where
  "searchParams_set name v u =
     (let ps = params_set name v (url_params u);
          q = form_serialize ps
      in u\<lparr>url_params := ps, url_query := (if q = [] then None else Some q)\<rparr>)"

text \<open>\<^verbatim>\<open>urlObj.toString()\<close>.\<close>

definition url_toString :: "url \<Rightarrow> string" where
  "url_toString u =
     url_prefix u
     @ (case url_query u of None \<Rightarrow> [] | Some q \<Rightarrow> CHR ''?'' # q)
     @ (case url_fragment u of None \<Rightarrow> [] | Some f \<Rightarrow> CHR ''#'' # f)"

subsection \<open>Platform functions the script calls\<close>

record story =
  story_url :: string
  story_title :: string

text \<open>
  \<open>url_parse\<close> is \<^verbatim>\<open>new URL(s)\<close>, \<open>None\<close> when it throws.
  \<open>json_parse_stories\<close> is \<^verbatim>\<open>JSON.parse\<close> on the catalog text, \<open>None\<close> when it throws.
  \<open>lang_select_option\<close> is \<^verbatim>\<open>JSON.parse(langData).share.select_option\<close>, \<open>None\<close> when
  evaluating it throws; a value that is not truthy is the empty string.
\<close>

record platform =
  url_parse :: "string \<Rightarrow> url option"
  json_parse_stories :: "string \<Rightarrow> story list option"
  lang_select_option :: "string \<Rightarrow> string option"

subsection \<open>Pure helpers of the script\<close>

text \<open>The test \<^verbatim>\<open>/^\d+$/.test(value)\<close>: a digit, then only digits to the end of the input.\<close>

fun digits_to_end :: "string \<Rightarrow> bool" where
  "digits_to_end [] = True"
| "digits_to_end (c # cs) = (is_digit c \<and> digits_to_end cs)"

fun test_integer_only :: "string \<Rightarrow> bool" where
  "test_integer_only [] = False"
| "test_integer_only (c # cs) = (is_digit c \<and> digits_to_end cs)"

definition normalizeDimension :: "string \<Rightarrow> string" where
  "normalizeDimension v = (if test_integer_only v then v @ ''px'' else v)"

definition addEmbedParameter :: "platform \<Rightarrow> string \<Rightarrow> string" where
  "addEmbedParameter P s =
     (case url_parse P s of
        Some urlObj \<Rightarrow>
          url_toString (searchParams_set ''embed'' ''true'' (clear_hash (clear_search urlObj)))
      | None \<Rightarrow> before_query_or_hash s @ ''?embed=true'')"

subsection \<open>DOM elements\<close>

text \<open>
  A \<^verbatim>\<open>select\<close> element: its options as pairs of \<^verbatim>\<open>value\<close> and \<^verbatim>\<open>textContent\<close>,
  and \<^verbatim>\<open>selectedIndex\<close>, which is \<open>-1\<close> when no option is selected.
\<close>

record select_elem =
  sel_options :: "(string \<times> string) list"
  selectedIndex :: int

text \<open>\<^verbatim>\<open>select.options[select.selectedIndex]\<close>, \<open>None\<close> for \<^verbatim>\<open>undefined\<close>.\<close>

definition option_at :: "select_elem \<Rightarrow> (string \<times> string) option" where
  "option_at sel =
     (let i = selectedIndex sel
      in if 0 \<le> i \<and> nat i < length (sel_options sel)
         then Some (sel_options sel ! nat i) else None)"

text \<open>Reading \<^verbatim>\<open>select.value\<close>: the value of the selected option, the empty string
  without one.\<close>

definition select_value :: "select_elem \<Rightarrow> string" where
  "select_value sel = (case option_at sel of None \<Rightarrow> [] | Some (v, t) \<Rightarrow> v)"

fun first_with_value :: "string \<Rightarrow> (string \<times> string) list \<Rightarrow> nat option" where
  "first_with_value v [] = None"
| "first_with_value v (p # ps) =
     (if fst p = v then Some 0 else map_option Suc (first_with_value v ps))"

text \<open>Writing \<^verbatim>\<open>select.value = v\<close>: the first option whose value is \<open>v\<close> becomes the
  selected one; when there is none, no option is selected.\<close>

definition select_set_value :: "string \<Rightarrow> select_elem \<Rightarrow> select_elem" where
  "select_set_value v sel =
     sel\<lparr>selectedIndex :=
           (case first_with_value v (sel_options sel) of None \<Rightarrow> - 1 | Some i \<Rightarrow> int i)\<rparr>"

text \<open>
  A copy button: its \<^verbatim>\<open>disabled\<close> flag, whether the \<^verbatim>\<open>.tab-pane\<close> around it holds a
  \<^verbatim>\<open>.share-success-message\<close>, and the text of its icon element when it has one.
\<close>

record button =
  disabled :: bool
  btn_has_message :: bool
  btn_icon :: "string option"

subsection \<open>State of the module\<close>

text \<open>
  The two module variables, the elements found by \<^verbatim>\<open>getElementById\<close> (\<open>None\<close> for
  \<^verbatim>\<open>null\<close>; an input or textarea is its \<^verbatim>\<open>value\<close>), and what the handlers read from the
  page: \<^verbatim>\<open>window.location\<close>, the \<^verbatim>\<open>og:title\<close> meta tag, \<^verbatim>\<open>document.title\<close>,
  \<^verbatim>\<open>dataset.lang\<close> and the text of \<^verbatim>\<open>#telar-stories-data\<close>.
\<close>

record state =
  currentStoryUrl :: string
  availableStories :: "story list"
  shareUrlInput :: "string option"
  shareCopyLinkBtn :: "button option"
  shareSiteUrlInput :: "string option"
  shareCopySiteBtn :: "button option"
  shareStorySelect :: "select_elem option"
  embedWidthInput :: "string option"
  embedHeightInput :: "string option"
  embedCodeTextarea :: "string option"
  embedCopyCodeBtn :: "button option"
  embedStorySelect :: "select_elem option"
  location_href :: string
  location_origin :: string
  location_pathname :: string
  og_title :: "string option"
  document_title :: string
  lang_data :: "string option"
  stories_data :: "string option"

text \<open>A handler either returns the new state or throws; what it had written before the
  throw stays written, so the error carries the state reached.\<close>

type_synonym outcome = "(js_error \<times> state) + state"

definition final_state :: "outcome \<Rightarrow> state" where
  "final_state r = (case r of Inl (e, s) \<Rightarrow> s | Inr s \<Rightarrow> s)"

datatype effect =
    ConsoleWarn string
  | ConsoleError string
  | Alert string
  | ShowSuccessMessage
  | HideSuccessMessageAfter nat
  | RestoreIconAfter nat string

subsection \<open>Story catalog\<close>

text \<open>The placeholder is the first option appended to the emptied selector, so it is the
  selected one afterwards.\<close>

definition populateStorySelectors :: "platform \<Rightarrow> state \<Rightarrow> state" where
  "populateStorySelectors P s =
     (if length (availableStories s) = 0 then s
      else
        let label =
              (case lang_data s of
                 None \<Rightarrow> ''Select''
               | Some langData \<Rightarrow>
                   (case lang_select_option P langData of
                      None \<Rightarrow> ''Select''
                    | Some t \<Rightarrow> if t \<noteq> [] then t else ''Select''));
            opts = ([], label) # map (\<lambda>st. (story_url st, story_title st)) (availableStories s);
            fill = map_option (\<lambda>sel. sel\<lparr>sel_options := opts, selectedIndex := 0\<rparr>)
        in s\<lparr>shareStorySelect := fill (shareStorySelect s),
              embedStorySelect := fill (embedStorySelect s)\<rparr>)"

definition loadAvailableStories :: "platform \<Rightarrow> state \<Rightarrow> effect list \<times> state" where
  "loadAvailableStories P s =
     (case stories_data s of
        None \<Rightarrow> ([], s)
      | Some storiesData \<Rightarrow>
          (case json_parse_stories P storiesData of
             None \<Rightarrow> ([ConsoleWarn ''[Telar Share] Could not parse stories data''], s)
           | Some stories \<Rightarrow> ([], populateStorySelectors P (s\<lparr>availableStories := stories\<rparr>))))"

subsection \<open>Derived outputs\<close>

definition updateShareUrl :: "platform \<Rightarrow> state \<Rightarrow> state" where
  "updateShareUrl P s =
     (let pathParts = filter (\<lambda>p. p \<noteq> []) (split_on CHR ''/'' (location_pathname s));
          baseUrl = location_origin s
                    @ (case pathParts of [] \<Rightarrow> ''/'' | p # ps \<Rightarrow> ''/'' @ p @ ''/'');
          s1 = s\<lparr>shareSiteUrlInput := map_option (\<lambda>old. baseUrl) (shareSiteUrlInput s)\<rparr>;
          shown =
            (if currentStoryUrl s1 \<noteq> []
             then (case url_parse P (currentStoryUrl s1) of
                     Some u \<Rightarrow> url_origin u @ url_pathname u
                   | None \<Rightarrow> currentStoryUrl s1)
             else [])
      in s1\<lparr>shareUrlInput := map_option (\<lambda>old. shown) (shareUrlInput s1)\<rparr>)"

text \<open>One of the two identical blocks at the top of \<^verbatim>\<open>getStoryTitle\<close>: the select exists,
  its value is not empty, and the option at \<^verbatim>\<open>selectedIndex\<close> exists with a value that is
  not empty; then the option's text is returned.\<close>

definition title_from_select :: "select_elem option \<Rightarrow> string option" where
  "title_from_select w =
     (case w of
        None \<Rightarrow> None
      | Some sel \<Rightarrow>
          if select_value sel \<noteq> []
          then (case option_at sel of
                  None \<Rightarrow> None
                | Some (v, t) \<Rightarrow> if v \<noteq> [] then Some t else None)
          else None)"

definition getStoryTitle :: "state \<Rightarrow> string" where
  "getStoryTitle s =
     (case title_from_select (shareStorySelect s) of
        Some t \<Rightarrow> t
      | None \<Rightarrow>
     (case title_from_select (embedStorySelect s) of
        Some t \<Rightarrow> t
      | None \<Rightarrow>
     (case (if currentStoryUrl s \<noteq> [] \<and> length (availableStories s) > 0
            then find (\<lambda>st. story_url st = currentStoryUrl s) (availableStories s)
            else None) of
        Some matchingStory \<Rightarrow> story_title matchingStory
      | None \<Rightarrow>
     (case og_title s of
        Some content \<Rightarrow> content
      | None \<Rightarrow>
     (if document_title s \<noteq> [] then document_title s else ''Telar Story'')))))"

definition iframe_code :: "string \<Rightarrow> string \<Rightarrow> string \<Rightarrow> string \<Rightarrow> string" where
  "iframe_code embedUrl widthAttr heightAttr storyTitle =
     ''<iframe src='' @ [dquote] @ embedUrl @ [dquote, newline]
     @ ''  width='' @ [dquote] @ widthAttr @ [dquote, newline]
     @ ''  height='' @ [dquote] @ heightAttr @ [dquote, newline]
     @ ''  title='' @ [dquote] @ storyTitle @ [dquote, newline]
     @ ''  frameborder='' @ [dquote] @ ''0'' @ [dquote] @ ''>'' @ [newline]
     @ ''</iframe>''"

text \<open>\<^verbatim>\<open>embedWidthInput.value\<close> on a missing element throws a TypeError.\<close>

definition generateEmbedCode :: "platform \<Rightarrow> state \<Rightarrow> js_error + string" where
  "generateEmbedCode P s =
     (if currentStoryUrl s = [] then Inr []
      else
        (case embedWidthInput s of
           None \<Rightarrow> Inl TypeError
         | Some w \<Rightarrow>
        (case embedHeightInput s of
           None \<Rightarrow> Inl TypeError
         | Some h \<Rightarrow>
             let width = (if trim w \<noteq> [] then trim w else ''100%'');
                 height = (if trim h \<noteq> [] then trim h else ''800'');
                 widthAttr = normalizeDimension width;
                 heightAttr = normalizeDimension height;
                 embedUrl = addEmbedParameter P (currentStoryUrl s);
                 storyTitle = getStoryTitle s
             in Inr (iframe_code embedUrl widthAttr heightAttr storyTitle))))"

definition updateEmbedCode :: "platform \<Rightarrow> state \<Rightarrow> outcome" where
  "updateEmbedCode P s =
     (case embedCodeTextarea s of
        None \<Rightarrow> Inr s
      | Some old \<Rightarrow>
          (case generateEmbedCode P s of
             Inl e \<Rightarrow> Inl (e, s)
           | Inr code \<Rightarrow> Inr (s\<lparr>embedCodeTextarea := Some code\<rparr>)))"

subsection \<open>Event handlers\<close>

definition handlePanelOpen :: "platform \<Rightarrow> state \<Rightarrow> outcome" where
  "handlePanelOpen P s =
     (let isHomepage = (shareStorySelect s \<noteq> None);
          s1 = (if isHomepage
                then s\<lparr>currentStoryUrl := [],
                       shareStorySelect := map_option (select_set_value []) (shareStorySelect s),
                       embedStorySelect := map_option (select_set_value []) (embedStorySelect s),
                       shareUrlInput := map_option (\<lambda>old. []) (shareUrlInput s),
                       shareCopyLinkBtn := map_option (\<lambda>b. b\<lparr>disabled := True\<rparr>) (shareCopyLinkBtn s),
                       embedCodeTextarea := map_option (\<lambda>old. []) (embedCodeTextarea s),
                       embedCopyCodeBtn := map_option (\<lambda>b. b\<lparr>disabled := True\<rparr>) (embedCopyCodeBtn s)\<rparr>
                else s\<lparr>currentStoryUrl := location_href s\<rparr>)
      in updateEmbedCode P (updateShareUrl P s1))"

text \<open>What \<^verbatim>\<open>handleStoryChange\<close> reads of its event: \<^verbatim>\<open>event.target.id\<close> and
  \<^verbatim>\<open>event.target.value\<close>.\<close>

record change_event =
  target_id :: string
  target_value :: string

definition handleStoryChange :: "platform \<Rightarrow> change_event \<Rightarrow> state \<Rightarrow> outcome" where
  "handleStoryChange P ev s =
     (let selectedValue = target_value ev;
          s1 = s\<lparr>currentStoryUrl := selectedValue\<rparr>;
          s2 = (if target_id ev = ''share-story-select'' \<and> embedStorySelect s1 \<noteq> None
                then s1\<lparr>embedStorySelect :=
                          map_option (select_set_value selectedValue) (embedStorySelect s1)\<rparr>
                else if target_id ev = ''embed-story-select'' \<and> shareStorySelect s1 \<noteq> None
                then s1\<lparr>shareStorySelect :=
                          map_option (select_set_value selectedValue) (shareStorySelect s1)\<rparr>
                else s1);
          hasSelection = (currentStoryUrl s2 \<noteq> []);
          s3 = s2\<lparr>shareCopyLinkBtn :=
                     map_option (\<lambda>b. b\<lparr>disabled := \<not> hasSelection\<rparr>) (shareCopyLinkBtn s2),
                   embedCopyCodeBtn :=
                     map_option (\<lambda>b. b\<lparr>disabled := \<not> hasSelection\<rparr>) (embedCopyCodeBtn s2)\<rparr>
      in updateEmbedCode P (updateShareUrl P s3))"

text \<open>
  The object literal \<^verbatim>\<open>presets\<close> of \<^verbatim>\<open>handlePresetChange\<close>: its own properties, and the
  names it inherits from \<^verbatim>\<open>Object.prototype\<close>. \<^verbatim>\<open>presets[preset]\<close> finds both; an
  inherited member is a function or an object, so it is truthy, and its \<^verbatim>\<open>width\<close> and
  \<^verbatim>\<open>height\<close> are \<^verbatim>\<open>undefined\<close>, which an input's \<^verbatim>\<open>value\<close> stores as the text
  \<^verbatim>\<open>undefined\<close>.
\<close>

definition presets :: "(string \<times> string \<times> string) list" where
  "presets =
     [(''canvas'', ''100%'', ''800''),
      (''moodle'', ''100%'', ''700''),
      (''wordpress'', ''100%'', ''600''),
      (''squarespace'', ''100%'', ''600''),
      (''wix'', ''100%'', ''550''),
      (''mobile'', ''375'', ''500''),
      (''fixed'', ''800'', ''600'')]"

definition object_prototype_names :: "string list" where
  "object_prototype_names =
     [''constructor'', ''__defineGetter__'', ''__defineSetter__'', ''hasOwnProperty'',
      ''__lookupGetter__'', ''__lookupSetter__'', ''isPrototypeOf'', ''propertyIsEnumerable'',
      ''toString'', ''valueOf'', ''__proto__'', ''toLocaleString'']"

datatype preset_member = OwnPreset string string | InheritedMember | NotFound

definition presets_get :: "string \<Rightarrow> preset_member" where
  "presets_get preset =
     (case map_of presets preset of
        Some (w, h) \<Rightarrow> OwnPreset w h
      | None \<Rightarrow> if preset \<in> set object_prototype_names then InheritedMember else NotFound)"

fun member_width :: "preset_member \<Rightarrow> string" where
  "member_width (OwnPreset w h) = w"
| "member_width m = ''undefined''"

fun member_height :: "preset_member \<Rightarrow> string" where
  "member_height (OwnPreset w h) = h"
| "member_height m = ''undefined''"

definition handlePresetChange :: "platform \<Rightarrow> string \<Rightarrow> state \<Rightarrow> outcome" where
  "handlePresetChange P preset s =
     (case presets_get preset of
        NotFound \<Rightarrow> Inr s
      | found \<Rightarrow>
          (case embedWidthInput s of
             None \<Rightarrow> Inl (TypeError, s)
           | Some old \<Rightarrow>
               let s1 = s\<lparr>embedWidthInput := Some (member_width found)\<rparr>
               in (case embedHeightInput s1 of
                     None \<Rightarrow> Inl (TypeError, s1)
                   | Some old \<Rightarrow>
                       updateEmbedCode P (s1\<lparr>embedHeightInput := Some (member_height found)\<rparr>))))"

subsection \<open>Clipboard\<close>

text \<open>
  The clipboard as the script meets it: \<^verbatim>\<open>navigator.clipboard\<close> may be missing, and the
  promise of \<^verbatim>\<open>writeText\<close> resolves or rejects. The trigger button is named by the variable
  that holds it.
\<close>

datatype clipboard = NoClipboard | WriteResolves | WriteRejects

datatype button_id = CopyLinkBtn | CopySiteBtn | CopyCodeBtn

fun get_button :: "button_id \<Rightarrow> state \<Rightarrow> button option" where
  "get_button CopyLinkBtn s = shareCopyLinkBtn s"
| "get_button CopySiteBtn s = shareCopySiteBtn s"
| "get_button CopyCodeBtn s = embedCopyCodeBtn s"

fun set_button :: "button_id \<Rightarrow> button \<Rightarrow> state \<Rightarrow> state" where
  "set_button CopyLinkBtn b s = s\<lparr>shareCopyLinkBtn := Some b\<rparr>"
| "set_button CopySiteBtn b s = s\<lparr>shareCopySiteBtn := Some b\<rparr>"
| "set_button CopyCodeBtn b s = s\<lparr>embedCopyCodeBtn := Some b\<rparr>"

text \<open>\<^verbatim>\<open>triggerButton.closest\<close> on a missing button throws a TypeError.\<close>

definition showSuccessFeedback :: "button_id \<Rightarrow> state \<Rightarrow> js_error + (effect list \<times> state)" where
  "showSuccessFeedback trigger s =
     (case get_button trigger s of
        None \<Rightarrow> Inl TypeError
      | Some b \<Rightarrow>
          let shown = (if btn_has_message b
                       then [ShowSuccessMessage, HideSuccessMessageAfter 3000] else [])
          in (case btn_icon b of
                None \<Rightarrow> Inr (shown, s)
              | Some originalIcon \<Rightarrow>
                  Inr (shown @ [RestoreIconAfter 2000 originalIcon],
                       set_button trigger (b\<lparr>btn_icon := Some ''check_circle''\<rparr>) s)))"

text \<open>The callback given to \<^verbatim>\<open>.catch\<close>.\<close>

definition on_copy_failure :: "string \<Rightarrow> effect list" where
  "on_copy_failure text =
     ConsoleError ''[Telar Share] Failed to copy:''
     # (if text \<noteq> [] then [Alert ''Please manually copy the text''] else [])"

text \<open>
  \<^verbatim>\<open>writeText(text).then(...).catch(...)\<close>: the \<^verbatim>\<open>catch\<close> callback also receives what the
  \<^verbatim>\<open>then\<close> callback throws. Only the missing clipboard throws out of the function.
\<close>

definition copyToClipboard ::
  "clipboard \<Rightarrow> string \<Rightarrow> button_id \<Rightarrow> state \<Rightarrow> (js_error \<times> state) + (effect list \<times> state)" where
  "copyToClipboard clip text trigger s =
     (case clip of
        NoClipboard \<Rightarrow> Inl (TypeError, s)
      | WriteResolves \<Rightarrow>
          (case showSuccessFeedback trigger s of
             Inr r \<Rightarrow> Inr r
           | Inl err \<Rightarrow> Inr (on_copy_failure text, s))
      | WriteRejects \<Rightarrow> Inr (on_copy_failure text, s))"

definition copyShareLink :: "clipboard \<Rightarrow> state \<Rightarrow> (js_error \<times> state) + (effect list \<times> state)" where
  "copyShareLink clip s =
     (case shareUrlInput s of
        None \<Rightarrow> Inr ([], s)
      | Some v \<Rightarrow> copyToClipboard clip v CopyLinkBtn s)"

definition copySiteLink :: "clipboard \<Rightarrow> state \<Rightarrow> (js_error \<times> state) + (effect list \<times> state)" where
  "copySiteLink clip s =
     (case shareSiteUrlInput s of
        None \<Rightarrow> Inr ([], s)
      | Some v \<Rightarrow> copyToClipboard clip v CopySiteBtn s)"

definition copyEmbedCode :: "clipboard \<Rightarrow> state \<Rightarrow> (js_error \<times> state) + (effect list \<times> state)" where
  "copyEmbedCode clip s =
     (case embedCodeTextarea s of
        None \<Rightarrow> Inr ([], s)
      | Some v \<Rightarrow> copyToClipboard clip v CopyCodeBtn s)"

definition copy_state :: "(js_error \<times> state) + (effect list \<times> state) \<Rightarrow> state" where
  "copy_state r = (case r of Inl (e, s) \<Rightarrow> s | Inr (es, s) \<Rightarrow> s)"

subsection \<open>The page as a state machine\<close>

text \<open>
  The browser's part of a \<^verbatim>\<open>change\<close> event on a story selector: the user picks option
  \<open>i\<close> of a selector that exists, the browser selects it and hands the selector over as
  \<^verbatim>\<open>event.target\<close>.
\<close>

datatype widget = ShareSelect | EmbedSelect

fun user_selects :: "widget \<Rightarrow> nat \<Rightarrow> state \<Rightarrow> (change_event \<times> state) option" where
  "user_selects ShareSelect i s =
     (case shareStorySelect s of
        None \<Rightarrow> None
      | Some sel \<Rightarrow>
          if i < length (sel_options sel)
          then Some (\<lparr>target_id = ''share-story-select'',
                       target_value = fst (sel_options sel ! i)\<rparr>,
                     s\<lparr>shareStorySelect := Some (sel\<lparr>selectedIndex := int i\<rparr>)\<rparr>)
          else None)"
| "user_selects EmbedSelect i s =
     (case embedStorySelect s of
        None \<Rightarrow> None
      | Some sel \<Rightarrow>
          if i < length (sel_options sel)
          then Some (\<lparr>target_id = ''embed-story-select'',
                       target_value = fst (sel_options sel ! i)\<rparr>,
                     s\<lparr>embedStorySelect := Some (sel\<lparr>selectedIndex := int i\<rparr>)\<rparr>)
          else None)"

text \<open>
  The script starts with \<^verbatim>\<open>currentStoryUrl = window.location.href\<close> (never empty in a
  browser) and an empty catalog, and \<^verbatim>\<open>init\<close> loads the catalog. After that the state
  changes only through the registered handlers and the timer that puts a button's icon
  back; a handler that throws leaves the state it had reached.
\<close>

definition initial :: "state \<Rightarrow> bool" where
  "initial s =
     (currentStoryUrl s = location_href s \<and> location_href s \<noteq> [] \<and> availableStories s = [])"

inductive reachable :: "platform \<Rightarrow> state \<Rightarrow> bool" for P :: platform where
  init: "initial s \<Longrightarrow> reachable P (snd (loadAvailableStories P s))"
| panel_open: "reachable P s \<Longrightarrow> reachable P (final_state (handlePanelOpen P s))"
| story_change:
    "reachable P s \<Longrightarrow> user_selects w i s = Some (ev, s1) \<Longrightarrow>
     reachable P (final_state (handleStoryChange P ev s1))"
| preset_change: "reachable P s \<Longrightarrow> reachable P (final_state (handlePresetChange P preset s))"
| width_input:
    "reachable P s \<Longrightarrow> embedWidthInput s \<noteq> None \<Longrightarrow>
     reachable P (final_state (updateEmbedCode P (s\<lparr>embedWidthInput := Some v\<rparr>)))"
| height_input:
    "reachable P s \<Longrightarrow> embedHeightInput s \<noteq> None \<Longrightarrow>
     reachable P (final_state (updateEmbedCode P (s\<lparr>embedHeightInput := Some v\<rparr>)))"
| copy_share: "reachable P s \<Longrightarrow> reachable P (copy_state (copyShareLink clip s))"
| copy_site: "reachable P s \<Longrightarrow> reachable P (copy_state (copySiteLink clip s))"
| copy_embed: "reachable P s \<Longrightarrow> reachable P (copy_state (copyEmbedCode clip s))"
| icon_timer:
    "reachable P s \<Longrightarrow> get_button trigger s = Some b \<Longrightarrow>
     reachable P (set_button trigger (b\<lparr>btn_icon := Some originalIcon\<rparr>) s)"

subsection \<open>Observations used to state the properties\<close>

text \<open>A field that is absent or holds the empty string; a button that is absent or disabled.\<close>

definition blank :: "string option \<Rightarrow> bool" where
  "blank field = (case field of None \<Rightarrow> True | Some v \<Rightarrow> v = [])"

definition is_disabled :: "button option \<Rightarrow> bool" where
  "is_disabled b = (case b of None \<Rightarrow> True | Some x \<Rightarrow> disabled x)"

definition outputs_blank :: "state \<Rightarrow> bool" where
  "outputs_blank s = (blank (shareUrlInput s) \<and> blank (embedCodeTextarea s))"

definition copy_disabled :: "state \<Rightarrow> bool" where
  "copy_disabled s = (is_disabled (shareCopyLinkBtn s) \<and> is_disabled (embedCopyCodeBtn s))"

definition empty_selection_inv :: "state \<Rightarrow> bool" where
  "empty_selection_inv s = (currentStoryUrl s = [] \<longrightarrow> outputs_blank s \<and> copy_disabled s)"

text \<open>Reading a URL text back: its fragment (after the first \<^verbatim>\<open>#\<close>), its query (between
  the first \<^verbatim>\<open>?\<close> and the fragment), the query's \<open>name=value\<close> pairs, and the values of
  the pairs named \<^verbatim>\<open>embed\<close>.\<close>

definition fragment_of :: "string \<Rightarrow> string option" where
  "fragment_of s = (case dropWhile (\<lambda>c. c \<noteq> CHR ''#'') s of [] \<Rightarrow> None | h # f \<Rightarrow> Some f)"

definition query_of :: "string \<Rightarrow> string option" where
  "query_of s =
     (case dropWhile (\<lambda>c. c \<noteq> CHR ''?'') (takeWhile (\<lambda>c. c \<noteq> CHR ''#'') s) of
        [] \<Rightarrow> None
      | q # rest \<Rightarrow> Some rest)"

definition query_pairs :: "string \<Rightarrow> (string \<times> string) list" where
  "query_pairs q =
     map (\<lambda>p. (takeWhile (\<lambda>c. c \<noteq> CHR ''='') p, drop 1 (dropWhile (\<lambda>c. c \<noteq> CHR ''='') p)))
         (filter (\<lambda>p. p \<noteq> []) (split_on CHR ''&'' q))"

definition embed_values :: "string \<Rightarrow> string list" where
  "embed_values s =
     (case query_of s of
        None \<Rightarrow> []
      | Some q \<Rightarrow> map snd (filter (\<lambda>p. fst p = ''embed'') (query_pairs q)))"

text \<open>Whether a selector has an option of a given value.\<close>

definition offers :: "select_elem \<Rightarrow> string \<Rightarrow> bool" where
  "offers sel v = (v \<in> set (map fst (sel_options sel)))"

subsection \<open>The title priority as the specification words it\<close>

text \<open>
  The specification resolves the title by priority: (a) the label of the option selected in
  a selector widget, the first widget before the second, where that selection is not empty;
  (b) the catalog entry for the current URL, first match; (c) the \<^verbatim>\<open>og:title\<close> meta tag;
  (d) the document title; (e) a fixed literal.
\<close>

definition selected_label :: "select_elem option \<Rightarrow> string option" where
  "selected_label w =
     (case w of
        None \<Rightarrow> None
      | Some sel \<Rightarrow>
          (case option_at sel of
             None \<Rightarrow> None
           | Some (v, t) \<Rightarrow> if v = [] then None else Some t))"

fun catalog_title :: "string \<Rightarrow> story list \<Rightarrow> string option" where
  "catalog_title u [] = None"
| "catalog_title u (st # rest) =
     (if story_url st = u then Some (story_title st) else catalog_title u rest)"

fun first_present :: "'a option list \<Rightarrow> 'a option" where
  "first_present [] = None"
| "first_present (Some x # rest) = Some x"
| "first_present (None # rest) = first_present rest"

definition title_by_priority :: "state \<Rightarrow> string" where
  "title_by_priority s =
     (case first_present
             [selected_label (shareStorySelect s),
              selected_label (embedStorySelect s),
              catalog_title (currentStoryUrl s) (availableStories s),
              og_title s,
              (if document_title s = [] then None else Some (document_title s))] of
        Some t \<Rightarrow> t
      | None \<Rightarrow> ''Telar Story'')"

subsection \<open>A small page for concrete runs\<close>

text \<open>
  A stand-in for the browser, and a page with both selectors, used to run the handlers on
  concrete inputs. The stand-in knows three addresses of one story and two texts with a
  non-special scheme; it answers for them as the URL Standard parses them and rejects
  everything else. The text \<open>hostless\<close> ends in the control character U+0001. The parser
  strips a trailing control character first, which leaves \<^verbatim>\<open>foo://@\<close>, credentials
  without a host, and that is a failure. Followed by a query the control character is not
  stripped: it is the host, written \<^verbatim>\<open>%01\<close>.
\<close>

definition hostless :: string where
  "hostless = ''foo://@'' @ [CHR 0x01]"

definition opaque_host_url :: url where
  "opaque_host_url =
     \<lparr>url_origin = ''null'', url_pathname = [], url_prefix = ''foo://%01'',
      url_query = Some ''embed=true'', url_fragment = None,
      url_params = [(''embed'', ''true'')]\<rparr>"

definition demo_url :: url where
  "demo_url = \<lparr>url_origin = ''https://x'', url_pathname = ''/a'', url_prefix = ''https://x/a'',
                url_query = Some ''foo=1'', url_fragment = Some ''bar'',
                url_params = [(''foo'', ''1'')]\<rparr>"

definition demo_platform :: platform where
  "demo_platform =
     \<lparr>url_parse = (\<lambda>s.
        if s = ''https://x/a?foo=1#bar'' then Some demo_url
        else if s = ''https://x/a?embed=true''
        then Some (demo_url\<lparr>url_query := Some ''embed=true'', url_fragment := None,
                             url_params := [(''embed'', ''true'')]\<rparr>)
        else if s = ''https://x/a''
        then Some (demo_url\<lparr>url_query := None, url_fragment := None, url_params := []\<rparr>)
        else if s = hostless @ ''?embed=true'' \<or> s = ''foo://%01?embed=true''
        then Some opaque_host_url
        else None),
       json_parse_stories = (\<lambda>t. if t = ''[]'' then Some [] else None),
       lang_select_option = (\<lambda>t. None)\<rparr>"

definition demo_select :: select_elem where
  "demo_select =
     \<lparr>sel_options = [([], ''Select''), (''https://x/a'', ''Story A'')], selectedIndex = 0\<rparr>"

definition demo_button :: button where
  "demo_button = \<lparr>disabled = False, btn_has_message = True, btn_icon = Some ''content_copy''\<rparr>"

definition demo_page :: state where
  "demo_page =
     \<lparr>currentStoryUrl = ''https://x/a?foo=1#bar'',
      availableStories = [],
      shareUrlInput = Some ''old'',
      shareCopyLinkBtn = Some demo_button,
      shareSiteUrlInput = Some [],
      shareCopySiteBtn = Some demo_button,
      shareStorySelect = Some demo_select,
      embedWidthInput = Some ''640'',
      embedHeightInput = Some ''480'',
      embedCodeTextarea = Some ''old'',
      embedCopyCodeBtn = Some demo_button,
      embedStorySelect = Some demo_select,
      location_href = ''https://x/a?foo=1#bar'',
      location_origin = ''https://x'',
      location_pathname = ''/a'',
      og_title = None,
      document_title = ''Demo'',
      lang_data = None,
      stories_data = Some ''[]''\<rparr>"

text \<open>The same page when its embed-tab selector offers the placeholder only, the
  share-tab event of picking the story there, and the page as the browser hands it over.\<close>

definition uneven_page :: state where
  "uneven_page =
     demo_page\<lparr>embedStorySelect := Some \<lparr>sel_options = [([], ''Select'')], selectedIndex = 0\<rparr>\<rparr>"

definition share_pick :: change_event where
  "share_pick = \<lparr>target_id = ''share-story-select'', target_value = ''https://x/a''\<rparr>"

definition uneven_picked :: state where
  "uneven_picked = uneven_page\<lparr>shareStorySelect := Some (demo_select\<lparr>selectedIndex := 1\<rparr>)\<rparr>"

section \<open>Properties\<close>

subsection \<open>Dimension tokens\<close>

lemma digits_to_end_iff: "digits_to_end v = (set v \<subseteq> set ''0123456789'')"
  by (induction v) (auto simp: is_digit_def)

lemma test_integer_only_iff:
  "test_integer_only v = (v \<noteq> [] \<and> set v \<subseteq> set ''0123456789'')"
  by (cases v) (auto simp: digits_to_end_iff is_digit_def)

text \<open>
  Claim C4. For every string of one or more decimal digits and nothing else,
  \<^verbatim>\<open>normalizeDimension\<close> returns the string with \<^verbatim>\<open>px\<close> appended; every other string is
  returned unchanged, the empty string and strings of white space included: no default is
  made up.
\<close>

theorem normalizeDimension_integer_only:
  "(v \<noteq> [] \<and> set v \<subseteq> set ''0123456789'' \<longrightarrow> normalizeDimension v = v @ ''px'')
   \<and> (\<not> (v \<noteq> [] \<and> set v \<subseteq> set ''0123456789'') \<longrightarrow> normalizeDimension v = v)
   \<and> ((\<forall>c \<in> set v. is_space c) \<longrightarrow> normalizeDimension v = v)"
proof -
  have ws: "\<not> test_integer_only v" if "\<forall>c \<in> set v. is_space c"
  proof (cases v)
    case Nil
    then show ?thesis by simp
  next
    case (Cons c cs)
    with that have "is_space c" by simp
    then have "\<not> is_digit c" by (auto simp: is_space_def is_digit_def)
    with Cons show ?thesis by simp
  qed
  have a: "v \<noteq> [] \<and> set v \<subseteq> set ''0123456789'' \<longrightarrow> normalizeDimension v = v @ ''px''"
    by (simp only: normalizeDimension_def test_integer_only_iff) simp
  have b: "\<not> (v \<noteq> [] \<and> set v \<subseteq> set ''0123456789'') \<longrightarrow> normalizeDimension v = v"
    by (simp only: normalizeDimension_def test_integer_only_iff) simp
  have c: "(\<forall>c \<in> set v. is_space c) \<longrightarrow> normalizeDimension v = v"
    using ws by (simp add: normalizeDimension_def)
  from a b c show ?thesis by blast
qed

theorem normalizeDimension_integer_only_witness:
  "normalizeDimension ''800'' = ''800px''
   \<and> normalizeDimension ''100%'' = ''100%''
   \<and> normalizeDimension ''50vh'' = ''50vh''
   \<and> normalizeDimension ''-5'' = ''-5''
   \<and> normalizeDimension ''1.5'' = ''1.5''
   \<and> normalizeDimension '''' = ''''
   \<and> normalizeDimension ''  '' = ''  ''"
  using normalizeDimension_integer_only [of "''800''"]
    normalizeDimension_integer_only [of "''100%''"]
    normalizeDimension_integer_only [of "''50vh''"]
    normalizeDimension_integer_only [of "''-5''"]
    normalizeDimension_integer_only [of "''1.5''"]
    normalizeDimension_integer_only [of "''''"]
    normalizeDimension_integer_only [of "''  ''"]
  by (simp add: is_space_def)

subsection \<open>The embed flag\<close>

lemma addEmbedParameter_parsed:
  "url_parse P u = Some urlObj \<Longrightarrow> addEmbedParameter P u = url_prefix urlObj @ ''?embed=true''"
  by (simp add: addEmbedParameter_def url_toString_def searchParams_set_def clear_hash_def
      clear_search_def form_encode_def form_encode_byte_def form_safe_def Let_def)

lemma addEmbedParameter_fallback:
  "url_parse P u = None \<Longrightarrow> addEmbedParameter P u = before_query_or_hash u @ ''?embed=true''"
  by (simp add: addEmbedParameter_def)

lemma before_query_or_hash_clean:
  "CHR ''?'' \<notin> set (before_query_or_hash u) \<and> CHR ''#'' \<notin> set (before_query_or_hash u)"
  unfolding before_query_or_hash_def by (induction u) auto

lemma before_query_or_hash_append:
  "CHR ''?'' \<notin> set pre \<Longrightarrow> CHR ''#'' \<notin> set pre \<Longrightarrow>
   before_query_or_hash (pre @ CHR ''?'' # rest) = pre"
  unfolding before_query_or_hash_def by (induction pre) auto

lemma fragment_of_flagged:
  "CHR ''#'' \<notin> set pre \<Longrightarrow> fragment_of (pre @ ''?embed=true'') = None"
  unfolding fragment_of_def by (induction pre) auto

lemma query_of_flagged:
  "CHR ''?'' \<notin> set pre \<Longrightarrow> CHR ''#'' \<notin> set pre \<Longrightarrow>
   query_of (pre @ ''?embed=true'') = Some ''embed=true''"
  unfolding query_of_def by (induction pre) auto

lemma embed_values_flagged:
  "CHR ''?'' \<notin> set pre \<Longrightarrow> CHR ''#'' \<notin> set pre \<Longrightarrow>
   embed_values (pre @ ''?embed=true'') = [''true'']"
  by (simp add: embed_values_def query_of_flagged query_pairs_def)

text \<open>
  Claim C2. For every input \<open>u\<close> the result of \<^verbatim>\<open>addEmbedParameter\<close> has no fragment and
  exactly one \<^verbatim>\<open>embed\<close> parameter, of value \<^verbatim>\<open>true\<close>, on the parsed path and on the
  fallback path. The platform's parser is a parameter; what is used of it is that the
  serialised scheme, authority and path of a parsed URL hold no \<^verbatim>\<open>?\<close> and no \<^verbatim>\<open>#\<close>.
\<close>

theorem addEmbedParameter_single_flag:
  assumes "\<And>urlObj. url_parse P u = Some urlObj \<Longrightarrow>
             CHR ''?'' \<notin> set (url_prefix urlObj) \<and> CHR ''#'' \<notin> set (url_prefix urlObj)"
  shows "fragment_of (addEmbedParameter P u) = None
         \<and> embed_values (addEmbedParameter P u) = [''true'']"
proof (cases "url_parse P u")
  case None
  then show ?thesis
    using before_query_or_hash_clean [of u]
    by (simp add: addEmbedParameter_fallback fragment_of_flagged embed_values_flagged)
next
  case (Some urlObj)
  with assms [of urlObj] show ?thesis
    by (simp add: addEmbedParameter_parsed fragment_of_flagged embed_values_flagged)
qed

theorem addEmbedParameter_single_flag_witness:
  "addEmbedParameter demo_platform ''https://x/a?foo=1#bar'' = ''https://x/a?embed=true''
   \<and> fragment_of (addEmbedParameter demo_platform ''https://x/a?foo=1#bar'') = None
   \<and> embed_values (addEmbedParameter demo_platform ''https://x/a?foo=1#bar'') = [''true'']
   \<and> addEmbedParameter demo_platform ''/stories/a/?embed=true&x=1#top'' = ''/stories/a/?embed=true''
   \<and> fragment_of (addEmbedParameter demo_platform ''/stories/a/?embed=true&x=1#top'') = None
   \<and> embed_values (addEmbedParameter demo_platform ''/stories/a/?embed=true&x=1#top'') = [''true'']"
proof -
  have p: "url_parse demo_platform ''https://x/a?foo=1#bar'' = Some demo_url"
    by (simp add: demo_platform_def hostless_def)
  have q: "url_parse demo_platform ''/stories/a/?embed=true&x=1#top'' = None"
    by (simp add: demo_platform_def hostless_def)
  have a: "addEmbedParameter demo_platform ''https://x/a?foo=1#bar'' = ''https://x/a?embed=true''"
    by (simp add: addEmbedParameter_parsed [OF p] demo_url_def)
  have b: "addEmbedParameter demo_platform ''/stories/a/?embed=true&x=1#top''
           = ''/stories/a/?embed=true''"
    by (simp add: addEmbedParameter_fallback [OF q] before_query_or_hash_def)
  have c: "fragment_of (addEmbedParameter demo_platform ''https://x/a?foo=1#bar'') = None
           \<and> embed_values (addEmbedParameter demo_platform ''https://x/a?foo=1#bar'') = [''true'']"
    by (rule addEmbedParameter_single_flag) (simp add: p demo_url_def)
  have d: "fragment_of (addEmbedParameter demo_platform ''/stories/a/?embed=true&x=1#top'') = None
           \<and> embed_values (addEmbedParameter demo_platform ''/stories/a/?embed=true&x=1#top'')
               = [''true'']"
    by (rule addEmbedParameter_single_flag) (simp add: q)
  from a b c d show ?thesis by simp
qed

text \<open>
  Claim C3, as the code has it. \<^verbatim>\<open>addEmbedParameter\<close> applied twice gives what it gives
  applied once, on the parsed path and on the fallback path, for every input \<open>u\<close> at which
  the platform's parser behaves as follows: a URL it parsed is parsed again from the text
  written for it, with the same scheme, authority and path; and a text it rejected is still
  rejected once cut at its first \<^verbatim>\<open>?\<close> or \<^verbatim>\<open>#\<close> and given the suffix
  \<^verbatim>\<open>?embed=true\<close>.
\<close>

theorem addEmbedParameter_idempotent:
  assumes roundtrip:
    "\<And>urlObj. url_parse P u = Some urlObj \<Longrightarrow>
       \<exists>again. url_parse P (addEmbedParameter P u) = Some again
               \<and> url_prefix again = url_prefix urlObj"
    and still_fails: "url_parse P u = None \<Longrightarrow> url_parse P (addEmbedParameter P u) = None"
  shows "addEmbedParameter P (addEmbedParameter P u) = addEmbedParameter P u"
proof (cases "url_parse P u")
  case None
  from still_fails [OF None]
  have "addEmbedParameter P (addEmbedParameter P u)
        = before_query_or_hash (addEmbedParameter P u) @ ''?embed=true''"
    by (rule addEmbedParameter_fallback)
  also have "before_query_or_hash (addEmbedParameter P u) = before_query_or_hash u"
    using before_query_or_hash_clean [of u]
    by (simp add: addEmbedParameter_fallback [OF None] before_query_or_hash_append)
  finally show ?thesis
    by (simp add: addEmbedParameter_fallback [OF None])
next
  case (Some urlObj)
  from roundtrip [OF Some] obtain again where
    again: "url_parse P (addEmbedParameter P u) = Some again"
    and same: "url_prefix again = url_prefix urlObj"
    by blast
  have "addEmbedParameter P (addEmbedParameter P u) = url_prefix again @ ''?embed=true''"
    using again by (rule addEmbedParameter_parsed)
  also have "\<dots> = addEmbedParameter P u"
    by (simp add: same addEmbedParameter_parsed [OF Some])
  finally show ?thesis .
qed

text \<open>
  Claim C3 as stated fails where the fallback writes a text that parses: \<open>hostless\<close> is
  rejected, the fallback appends the flag to it, and the result parses to a URL whose
  serialisation is another text.
\<close>

theorem addEmbedParameter_idempotent_counterexample:
  "url_parse demo_platform hostless = None
   \<and> addEmbedParameter demo_platform hostless = hostless @ ''?embed=true''
   \<and> addEmbedParameter demo_platform (addEmbedParameter demo_platform hostless)
     = ''foo://%01?embed=true''
   \<and> addEmbedParameter demo_platform (addEmbedParameter demo_platform hostless)
     \<noteq> addEmbedParameter demo_platform hostless"
proof -
  have p: "url_parse demo_platform hostless = None"
    by (simp add: demo_platform_def hostless_def)
  have q: "url_parse demo_platform (hostless @ ''?embed=true'') = Some opaque_host_url"
    by (simp add: demo_platform_def hostless_def)
  have a: "addEmbedParameter demo_platform hostless = hostless @ ''?embed=true''"
    by (simp add: addEmbedParameter_fallback [OF p])
      (simp add: before_query_or_hash_def hostless_def)
  have b: "addEmbedParameter demo_platform (hostless @ ''?embed=true'') = ''foo://%01?embed=true''"
    by (simp add: addEmbedParameter_parsed [OF q] opaque_host_url_def)
  show ?thesis
    by (simp add: p a b) (simp add: hostless_def)
qed

theorem addEmbedParameter_idempotent_witness:
  "addEmbedParameter demo_platform (addEmbedParameter demo_platform ''https://x/a?foo=1#bar'')
     = addEmbedParameter demo_platform ''https://x/a?foo=1#bar''
   \<and> addEmbedParameter demo_platform (addEmbedParameter demo_platform ''/stories/a/?x=1#top'')
     = addEmbedParameter demo_platform ''/stories/a/?x=1#top''"
proof -
  have p: "url_parse demo_platform ''https://x/a?foo=1#bar'' = Some demo_url"
    by (simp add: demo_platform_def hostless_def)
  have q: "url_parse demo_platform ''/stories/a/?x=1#top'' = None"
    by (simp add: demo_platform_def hostless_def)
  have a: "addEmbedParameter demo_platform ''https://x/a?foo=1#bar'' = ''https://x/a?embed=true''"
    by (simp add: addEmbedParameter_parsed [OF p] demo_url_def)
  have b: "addEmbedParameter demo_platform ''/stories/a/?x=1#top'' = ''/stories/a/?embed=true''"
    by (simp add: addEmbedParameter_fallback [OF q] before_query_or_hash_def)
  have c: "addEmbedParameter demo_platform (addEmbedParameter demo_platform ''https://x/a?foo=1#bar'')
           = addEmbedParameter demo_platform ''https://x/a?foo=1#bar''"
    by (rule addEmbedParameter_idempotent) (simp_all add: a p, simp_all add: demo_platform_def hostless_def demo_url_def)
  have d: "addEmbedParameter demo_platform (addEmbedParameter demo_platform ''/stories/a/?x=1#top'')
           = addEmbedParameter demo_platform ''/stories/a/?x=1#top''"
    by (rule addEmbedParameter_idempotent) (simp_all add: b q, simp_all add: demo_platform_def hostless_def)
  from c d show ?thesis by simp
qed

subsection \<open>The empty selection\<close>

lemma generateEmbedCode_empty: "currentStoryUrl s = [] \<Longrightarrow> generateEmbedCode P s = Inr []"
  by (simp add: generateEmbedCode_def)

lemma updateShareUrl_frame:
  "currentStoryUrl (updateShareUrl P s) = currentStoryUrl s"
  "shareCopyLinkBtn (updateShareUrl P s) = shareCopyLinkBtn s"
  "embedCopyCodeBtn (updateShareUrl P s) = embedCopyCodeBtn s"
  "embedCodeTextarea (updateShareUrl P s) = embedCodeTextarea s"
  "embedWidthInput (updateShareUrl P s) = embedWidthInput s"
  "embedHeightInput (updateShareUrl P s) = embedHeightInput s"
  "shareStorySelect (updateShareUrl P s) = shareStorySelect s"
  "embedStorySelect (updateShareUrl P s) = embedStorySelect s"
  "location_href (updateShareUrl P s) = location_href s"
  "availableStories (updateShareUrl P s) = availableStories s"
  by (simp_all add: updateShareUrl_def Let_def)

lemma updateShareUrl_blank:
  "currentStoryUrl s = [] \<Longrightarrow> blank (shareUrlInput (updateShareUrl P s))"
  by (simp add: updateShareUrl_def Let_def blank_def split: option.splits)

lemma updateEmbedCode_empty:
  "currentStoryUrl s = [] \<Longrightarrow>
   updateEmbedCode P s = Inr (s\<lparr>embedCodeTextarea := map_option (\<lambda>old. []) (embedCodeTextarea s)\<rparr>)"
  by (simp add: updateEmbedCode_def generateEmbedCode_def split: option.splits)

lemma updateEmbedCode_frame:
  "currentStoryUrl (final_state (updateEmbedCode P s)) = currentStoryUrl s"
  "shareCopyLinkBtn (final_state (updateEmbedCode P s)) = shareCopyLinkBtn s"
  "embedCopyCodeBtn (final_state (updateEmbedCode P s)) = embedCopyCodeBtn s"
  "shareUrlInput (final_state (updateEmbedCode P s)) = shareUrlInput s"
  "embedWidthInput (final_state (updateEmbedCode P s)) = embedWidthInput s"
  "embedHeightInput (final_state (updateEmbedCode P s)) = embedHeightInput s"
  "shareStorySelect (final_state (updateEmbedCode P s)) = shareStorySelect s"
  "embedStorySelect (final_state (updateEmbedCode P s)) = embedStorySelect s"
  "location_href (final_state (updateEmbedCode P s)) = location_href s"
  "availableStories (final_state (updateEmbedCode P s)) = availableStories s"
  by (simp_all add: updateEmbedCode_def final_state_def split: option.splits sum.splits)

lemma updateEmbedCode_blank:
  "currentStoryUrl s = [] \<Longrightarrow> blank (embedCodeTextarea (final_state (updateEmbedCode P s)))"
  by (simp add: updateEmbedCode_empty final_state_def blank_def split: option.splits)

text \<open>Recomputing both outputs re-establishes the invariant once the buttons agree.\<close>

lemma recompute_inv:
  assumes "currentStoryUrl s = [] \<longrightarrow> copy_disabled s"
  shows "empty_selection_inv (final_state (updateEmbedCode P (updateShareUrl P s)))"
  using assms
  by (auto simp: empty_selection_inv_def outputs_blank_def copy_disabled_def
      updateEmbedCode_frame updateShareUrl_frame updateEmbedCode_blank updateShareUrl_blank)

lemma updateEmbedCode_inv:
  assumes "empty_selection_inv s" "currentStoryUrl s' = currentStoryUrl s"
    "shareUrlInput s' = shareUrlInput s" "shareCopyLinkBtn s' = shareCopyLinkBtn s"
    "embedCopyCodeBtn s' = embedCopyCodeBtn s"
  shows "empty_selection_inv (final_state (updateEmbedCode P s'))"
  using assms
  by (auto simp: empty_selection_inv_def outputs_blank_def copy_disabled_def
      updateEmbedCode_frame updateEmbedCode_blank)

lemma handlePanelOpen_inv:
  assumes "location_href s \<noteq> []"
  shows "empty_selection_inv (final_state (handlePanelOpen P s))"
  unfolding handlePanelOpen_def Let_def
  by (rule recompute_inv) (use assms in \<open>auto simp: copy_disabled_def is_disabled_def split: option.splits\<close>)

lemma handleStoryChange_inv: "empty_selection_inv (final_state (handleStoryChange P ev s))"
  unfolding handleStoryChange_def Let_def
  by (rule recompute_inv) (auto simp: copy_disabled_def is_disabled_def split: option.splits)

lemma handlePresetChange_found:
  "presets_get preset \<noteq> NotFound \<Longrightarrow> embedWidthInput s = Some a \<Longrightarrow>
   embedHeightInput s = Some b \<Longrightarrow>
   handlePresetChange P preset s =
     updateEmbedCode P (s\<lparr>embedWidthInput := Some (member_width (presets_get preset)),
                           embedHeightInput := Some (member_height (presets_get preset))\<rparr>)"
  by (cases "presets_get preset") (simp_all add: handlePresetChange_def)

lemma handlePresetChange_inv:
  assumes "empty_selection_inv s"
  shows "empty_selection_inv (final_state (handlePresetChange P preset s))"
proof (cases "presets_get preset = NotFound \<or> embedWidthInput s = None \<or> embedHeightInput s = None")
  case True
  then show ?thesis
    using assms
    by (cases "presets_get preset")
      (auto simp: handlePresetChange_def final_state_def empty_selection_inv_def
        outputs_blank_def copy_disabled_def Let_def split: option.splits)
next
  case False
  then obtain a b where "embedWidthInput s = Some a" "embedHeightInput s = Some b"
    by auto
  with False show ?thesis
    using assms by (simp add: handlePresetChange_found updateEmbedCode_inv)
qed

lemma copy_state_inv:
  assumes "empty_selection_inv s"
  shows "empty_selection_inv (copy_state (copyToClipboard clip text trigger s))"
  using assms
  by (cases trigger)
    (auto simp: copyToClipboard_def copy_state_def showSuccessFeedback_def Let_def
      empty_selection_inv_def outputs_blank_def copy_disabled_def is_disabled_def
      split: clipboard.splits option.splits sum.splits)


lemma copy_handlers_inv:
  assumes "empty_selection_inv s"
  shows "empty_selection_inv (copy_state (copyShareLink clip s))"
    and "empty_selection_inv (copy_state (copySiteLink clip s))"
    and "empty_selection_inv (copy_state (copyEmbedCode clip s))"
  using assms copy_state_inv [OF assms]
  by (auto simp: copyShareLink_def copySiteLink_def copyEmbedCode_def copy_state_def
      split: option.splits)

lemma set_button_icon_inv:
  assumes "empty_selection_inv s" "get_button trigger s = Some b"
  shows "empty_selection_inv (set_button trigger (b\<lparr>btn_icon := Some icon\<rparr>) s)"
  using assms
  by (cases trigger)
    (auto simp: empty_selection_inv_def outputs_blank_def copy_disabled_def is_disabled_def)

lemma loadAvailableStories_frame:
  "currentStoryUrl (snd (loadAvailableStories P s)) = currentStoryUrl s"
  "location_href (snd (loadAvailableStories P s)) = location_href s"
  by (simp_all add: loadAvailableStories_def populateStorySelectors_def Let_def
      split: option.splits)

lemma handlePanelOpen_href:
  "location_href (final_state (handlePanelOpen P s)) = location_href s"
  by (simp add: handlePanelOpen_def Let_def updateEmbedCode_frame updateShareUrl_frame)

lemma handleStoryChange_href:
  "location_href (final_state (handleStoryChange P ev s)) = location_href s"
  by (simp add: handleStoryChange_def Let_def updateEmbedCode_frame updateShareUrl_frame)

lemma handlePresetChange_href:
  "location_href (final_state (handlePresetChange P preset s)) = location_href s"
proof (cases "presets_get preset = NotFound \<or> embedWidthInput s = None \<or> embedHeightInput s = None")
  case True
  then show ?thesis
    by (cases "presets_get preset")
      (auto simp: handlePresetChange_def final_state_def Let_def split: option.splits)
next
  case False
  then obtain a b where "embedWidthInput s = Some a" "embedHeightInput s = Some b"
    by auto
  with False show ?thesis
    by (simp add: handlePresetChange_found updateEmbedCode_frame)
qed

lemma copy_state_href:
  "location_href (copy_state (copyToClipboard clip text trigger s)) = location_href s"
  by (cases trigger)
    (auto simp: copyToClipboard_def copy_state_def showSuccessFeedback_def Let_def
      split: clipboard.splits option.splits sum.splits)

lemma copy_handlers_href:
  "location_href (copy_state (copyShareLink clip s)) = location_href s"
  "location_href (copy_state (copySiteLink clip s)) = location_href s"
  "location_href (copy_state (copyEmbedCode clip s)) = location_href s"
  using copy_state_href
  by (auto simp: copyShareLink_def copySiteLink_def copyEmbedCode_def copy_state_def
      split: option.splits)

lemma user_selects_frame:
  assumes "user_selects w i s = Some (ev, s1)"
  shows "location_href s1 = location_href s"
  using assms by (cases w) (auto split: option.splits if_splits)

lemma reachable_inv:
  "reachable P s \<Longrightarrow> location_href s \<noteq> [] \<and> empty_selection_inv s"
proof (induction rule: reachable.induct)
  case (init s)
  then show ?case
    by (simp add: initial_def loadAvailableStories_frame empty_selection_inv_def)
next
  case (panel_open s)
  then show ?case by (simp add: handlePanelOpen_href handlePanelOpen_inv)
next
  case (story_change s w i ev s1)
  then show ?case
    by (simp add: handleStoryChange_href handleStoryChange_inv user_selects_frame)
next
  case (preset_change s preset)
  then show ?case by (simp add: handlePresetChange_href handlePresetChange_inv)
next
  case (width_input s v)
  then have "empty_selection_inv (final_state (updateEmbedCode P (s\<lparr>embedWidthInput := Some v\<rparr>)))"
    by (intro updateEmbedCode_inv [where s = s]) simp_all
  with width_input show ?case by (simp add: updateEmbedCode_frame)
next
  case (height_input s v)
  then have "empty_selection_inv (final_state (updateEmbedCode P (s\<lparr>embedHeightInput := Some v\<rparr>)))"
    by (intro updateEmbedCode_inv [where s = s]) simp_all
  with height_input show ?case by (simp add: updateEmbedCode_frame)
next
  case (copy_share s clip)
  then show ?case by (simp add: copy_handlers_href copy_handlers_inv)
next
  case (copy_site s clip)
  then show ?case by (simp add: copy_handlers_href copy_handlers_inv)
next
  case (copy_embed s clip)
  then show ?case by (simp add: copy_handlers_href copy_handlers_inv)
next
  case (icon_timer s trigger b originalIcon)
  then have "empty_selection_inv (set_button trigger (b\<lparr>btn_icon := Some originalIcon\<rparr>) s)"
    by (simp add: set_button_icon_inv)
  moreover have "location_href (set_button trigger (b\<lparr>btn_icon := Some originalIcon\<rparr>) s)
                 = location_href s"
    by (cases trigger) simp_all
  ultimately show ?case using icon_timer by simp
qed

lemma handlePanelOpen_homepage:
  assumes "shareStorySelect s \<noteq> None"
  shows "\<exists>s'. handlePanelOpen P s = Inr s' \<and> currentStoryUrl s' = []
              \<and> outputs_blank s' \<and> copy_disabled s'"
proof -
  define s1 where "s1 = s\<lparr>currentStoryUrl := [],
       shareStorySelect := map_option (select_set_value []) (shareStorySelect s),
       embedStorySelect := map_option (select_set_value []) (embedStorySelect s),
       shareUrlInput := map_option (\<lambda>old. []) (shareUrlInput s),
       shareCopyLinkBtn := map_option (\<lambda>b. b\<lparr>disabled := True\<rparr>) (shareCopyLinkBtn s),
       embedCodeTextarea := map_option (\<lambda>old. []) (embedCodeTextarea s),
       embedCopyCodeBtn := map_option (\<lambda>b. b\<lparr>disabled := True\<rparr>) (embedCopyCodeBtn s)\<rparr>"
  define s2 where "s2 = updateShareUrl P s1"
  have run: "handlePanelOpen P s = updateEmbedCode P s2"
    using assms by (simp add: handlePanelOpen_def Let_def s1_def s2_def)
  have url: "currentStoryUrl s2 = []"
    by (simp add: s2_def updateShareUrl_frame s1_def)
  have dis: "copy_disabled s2"
    by (simp add: s2_def updateShareUrl_frame s1_def copy_disabled_def is_disabled_def
        split: option.splits)
  have sh: "blank (shareUrlInput s2)"
    unfolding s2_def by (rule updateShareUrl_blank) (simp add: s1_def)
  let ?s' = "s2\<lparr>embedCodeTextarea := map_option (\<lambda>old. []) (embedCodeTextarea s2)\<rparr>"
  have "handlePanelOpen P s = Inr ?s'"
    by (simp add: run updateEmbedCode_empty [OF url])
  moreover have "currentStoryUrl ?s' = []" using url by simp
  moreover have "outputs_blank ?s'"
    using sh by (simp add: outputs_blank_def blank_def split: option.splits)
  moreover have "copy_disabled ?s'"
    using dis by (simp add: copy_disabled_def)
  ultimately show ?thesis by blast
qed

lemma handleStoryChange_placeholder:
  assumes "target_value ev = []"
  shows "\<exists>s'. handleStoryChange P ev s = Inr s' \<and> currentStoryUrl s' = []
              \<and> outputs_blank s' \<and> copy_disabled s'"
proof -
  obtain s3 where run: "handleStoryChange P ev s = updateEmbedCode P (updateShareUrl P s3)"
    and url3: "currentStoryUrl s3 = []" and dis3: "copy_disabled s3"
    using assms
    by (auto simp: handleStoryChange_def Let_def copy_disabled_def is_disabled_def
        split: option.splits)
  define s4 where "s4 = updateShareUrl P s3"
  have url: "currentStoryUrl s4 = []" by (simp add: s4_def updateShareUrl_frame url3)
  have dis: "copy_disabled s4"
    using dis3 by (simp add: s4_def updateShareUrl_frame copy_disabled_def)
  have sh: "blank (shareUrlInput s4)"
    unfolding s4_def by (rule updateShareUrl_blank) (rule url3)
  let ?s' = "s4\<lparr>embedCodeTextarea := map_option (\<lambda>old. []) (embedCodeTextarea s4)\<rparr>"
  have "handleStoryChange P ev s = Inr ?s'"
    by (simp add: run s4_def [symmetric] updateEmbedCode_empty [OF url])
  moreover have "currentStoryUrl ?s' = []" using url by simp
  moreover have "outputs_blank ?s'"
    using sh by (simp add: outputs_blank_def blank_def split: option.splits)
  moreover have "copy_disabled ?s'"
    using dis by (simp add: copy_disabled_def)
  ultimately show ?thesis by blast
qed

text \<open>
  Claim C1. With an empty \<^verbatim>\<open>currentStoryUrl\<close>, \<^verbatim>\<open>generateEmbedCode\<close> returns the empty
  string; in every state the page can reach with an empty selection the share URL field and
  the embed textarea are blank and the two copy buttons are disabled (each as far as the
  element exists); and the two transitions that empty the selection, opening the panel on a
  page with the share-tab selector and a change event carrying the placeholder value,
  return normally in such a state.
\<close>

theorem empty_selection_blank_and_disabled:
  "(currentStoryUrl s = [] \<longrightarrow> generateEmbedCode P s = Inr [])
   \<and> (reachable P s \<and> currentStoryUrl s = [] \<longrightarrow> outputs_blank s \<and> copy_disabled s)
   \<and> (shareStorySelect s \<noteq> None \<longrightarrow>
        (\<exists>s'. handlePanelOpen P s = Inr s' \<and> currentStoryUrl s' = []
              \<and> outputs_blank s' \<and> copy_disabled s'))
   \<and> (target_value ev = [] \<longrightarrow>
        (\<exists>s'. handleStoryChange P ev s = Inr s' \<and> currentStoryUrl s' = []
              \<and> outputs_blank s' \<and> copy_disabled s'))"
proof -
  have "reachable P s \<and> currentStoryUrl s = [] \<longrightarrow> outputs_blank s \<and> copy_disabled s"
    using reachable_inv [of P s] by (simp add: empty_selection_inv_def)
  then show ?thesis
    using generateEmbedCode_empty [of s P] handlePanelOpen_homepage [of s P]
      handleStoryChange_placeholder [of ev P s]
    by blast
qed

theorem empty_selection_blank_and_disabled_witness:
  "generateEmbedCode demo_platform
     (final_state (handlePanelOpen demo_platform (snd (loadAvailableStories demo_platform demo_page))))
     = Inr []
   \<and> reachable demo_platform
       (final_state (handlePanelOpen demo_platform (snd (loadAvailableStories demo_platform demo_page))))
   \<and> currentStoryUrl
       (final_state (handlePanelOpen demo_platform (snd (loadAvailableStories demo_platform demo_page))))
       = []
   \<and> outputs_blank
       (final_state (handlePanelOpen demo_platform (snd (loadAvailableStories demo_platform demo_page))))
   \<and> copy_disabled
       (final_state (handlePanelOpen demo_platform (snd (loadAvailableStories demo_platform demo_page))))
   \<and> shareStorySelect demo_page \<noteq> None
   \<and> (\<exists>s'. handlePanelOpen demo_platform demo_page = Inr s' \<and> currentStoryUrl s' = []
             \<and> outputs_blank s' \<and> copy_disabled s')
   \<and> (\<exists>s'. handleStoryChange demo_platform
               \<lparr>target_id = ''share-story-select'', target_value = []\<rparr> demo_page = Inr s'
             \<and> currentStoryUrl s' = [] \<and> outputs_blank s' \<and> copy_disabled s')"
proof -
  let ?loaded = "snd (loadAvailableStories demo_platform demo_page)"
  let ?opened = "final_state (handlePanelOpen demo_platform ?loaded)"
  let ?ev = "\<lparr>target_id = ''share-story-select'', target_value = []\<rparr>"
  have start: "initial demo_page"
    by (simp add: initial_def demo_page_def)
  have r: "reachable demo_platform ?opened"
    by (intro reachable.panel_open reachable.init start)
  have "stories_data demo_page = Some ''[]''"
    by (simp add: demo_page_def)
  moreover have "json_parse_stories demo_platform ''[]'' = Some []"
    by (simp add: demo_platform_def hostless_def)
  ultimately have "?loaded = populateStorySelectors demo_platform (demo_page\<lparr>availableStories := []\<rparr>)"
    by (simp add: loadAvailableStories_def)
  then have home: "shareStorySelect ?loaded \<noteq> None"
    by (simp add: populateStorySelectors_def demo_page_def)
  have e: "currentStoryUrl ?opened = []"
    using home
    by (simp add: handlePanelOpen_def Let_def updateEmbedCode_frame updateShareUrl_frame)
  have sel: "shareStorySelect demo_page \<noteq> None"
    by (simp add: demo_page_def)
  have ev: "target_value ?ev = []" by simp
  show ?thesis
    using empty_selection_blank_and_disabled [of ?opened demo_platform ?ev] r e
      empty_selection_blank_and_disabled [of demo_page demo_platform ?ev] sel ev
    by blast
qed

subsection \<open>Selectors\<close>

lemma first_with_value_None: "(first_with_value v ps = None) = (v \<notin> set (map fst ps))"
  by (induction ps) auto

lemma first_with_value_Some:
  "first_with_value v ps = Some i \<Longrightarrow> i < length ps \<and> fst (ps ! i) = v"
  by (induction ps arbitrary: i) (auto split: if_splits)

lemma select_value_set_value:
  "select_value (select_set_value v sel) = (if offers sel v then v else [])"
proof (cases "first_with_value v (sel_options sel)")
  case None
  then show ?thesis
    using first_with_value_None [of v "sel_options sel"]
    by (simp add: select_value_def option_at_def select_set_value_def offers_def)
next
  case (Some i)
  from first_with_value_Some [OF Some] have "i < length (sel_options sel)"
    and "fst (sel_options sel ! i) = v" by simp_all
  moreover from Some have "offers sel v"
    using first_with_value_None [of v "sel_options sel"] by (simp add: offers_def)
  ultimately show ?thesis
    using Some
    by (cases "sel_options sel ! i")
      (simp add: select_value_def option_at_def select_set_value_def)
qed

lemma select_value_picked:
  "i < length (sel_options sel) \<Longrightarrow>
   select_value (sel\<lparr>selectedIndex := int i\<rparr>) = fst (sel_options sel ! i)"
  by (cases "sel_options sel ! i") (simp add: select_value_def option_at_def)

lemma handleStoryChange_selects:
  "shareStorySelect (final_state (handleStoryChange P ev s)) =
     (if target_id ev \<noteq> ''share-story-select'' \<and> target_id ev = ''embed-story-select''
      then map_option (select_set_value (target_value ev)) (shareStorySelect s)
      else shareStorySelect s)"
  "embedStorySelect (final_state (handleStoryChange P ev s)) =
     (if target_id ev = ''share-story-select''
      then map_option (select_set_value (target_value ev)) (embedStorySelect s)
      else embedStorySelect s)"
  "currentStoryUrl (final_state (handleStoryChange P ev s)) = target_value ev"
  by (auto simp: handleStoryChange_def Let_def updateEmbedCode_frame updateShareUrl_frame)

text \<open>Filled from a catalog that is not empty, the two selectors offer the same options.\<close>

lemma populateStorySelectors_same_options:
  assumes "availableStories s \<noteq> []"
    and "shareStorySelect (populateStorySelectors P s) = Some a"
    and "embedStorySelect (populateStorySelectors P s) = Some b"
  shows "sel_options a = sel_options b"
  using assms by (auto simp: populateStorySelectors_def Let_def)

text \<open>
  Claim C6, as the code has it. A change event from either selector, on a page with both,
  leaves the selected value in the selector it came from and in \<^verbatim>\<open>currentStoryUrl\<close>. The
  other selector reads the same value exactly when that value is empty or the other selector
  has an option of that value: assigning to \<^verbatim>\<open>select.value\<close> a value no option carries
  leaves the selector without a selection, and it then reads as the empty string.
\<close>

theorem story_selection_synchronised:
  assumes pick: "user_selects w i s = Some (ev, s1)"
    and share: "shareStorySelect s = Some a"
    and embed: "embedStorySelect s = Some b"
  shows "\<exists>a' b'. shareStorySelect (final_state (handleStoryChange P ev s1)) = Some a'
           \<and> embedStorySelect (final_state (handleStoryChange P ev s1)) = Some b'
           \<and> currentStoryUrl (final_state (handleStoryChange P ev s1)) = target_value ev
           \<and> select_value (case w of ShareSelect \<Rightarrow> a' | EmbedSelect \<Rightarrow> b') = target_value ev
           \<and> ((select_value a' = select_value b')
                = (target_value ev = []
                   \<or> offers (case w of ShareSelect \<Rightarrow> b | EmbedSelect \<Rightarrow> a) (target_value ev)))"
proof (cases w)
  case ShareSelect
  with pick share have i: "i < length (sel_options a)"
    and ev: "ev = \<lparr>target_id = ''share-story-select'', target_value = fst (sel_options a ! i)\<rparr>"
    and s1: "s1 = s\<lparr>shareStorySelect := Some (a\<lparr>selectedIndex := int i\<rparr>)\<rparr>"
    by (auto split: if_splits)
  show ?thesis
    using i embed
    by (auto simp: ShareSelect ev s1 handleStoryChange_selects select_value_picked
        select_value_set_value)
next
  case EmbedSelect
  with pick embed have i: "i < length (sel_options b)"
    and ev: "ev = \<lparr>target_id = ''embed-story-select'', target_value = fst (sel_options b ! i)\<rparr>"
    and s1: "s1 = s\<lparr>embedStorySelect := Some (b\<lparr>selectedIndex := int i\<rparr>)\<rparr>"
    by (auto split: if_splits)
  show ?thesis
    using i share
    by (auto simp: EmbedSelect ev s1 handleStoryChange_selects select_value_picked
        select_value_set_value)
qed

text \<open>
  Claim C6 as stated fails on a page whose embed-tab selector lacks the story picked in the
  share-tab selector: after the event the share-tab selector reads the story's URL and the
  embed-tab selector reads the empty string.
\<close>

theorem story_selection_counterexample:
  "user_selects ShareSelect 1 uneven_page = Some (share_pick, uneven_picked)
   \<and> map_option select_value
       (shareStorySelect (final_state (handleStoryChange demo_platform share_pick uneven_picked)))
     = Some ''https://x/a''
   \<and> map_option select_value
       (embedStorySelect (final_state (handleStoryChange demo_platform share_pick uneven_picked)))
     = Some []"
  by (simp add: handleStoryChange_selects uneven_page_def uneven_picked_def share_pick_def
      demo_page_def demo_select_def select_value_def option_at_def select_set_value_def)

theorem story_selection_synchronised_witness:
  "user_selects EmbedSelect 1 demo_page
     = Some (\<lparr>target_id = ''embed-story-select'', target_value = ''https://x/a''\<rparr>,
             demo_page\<lparr>embedStorySelect := Some (demo_select\<lparr>selectedIndex := 1\<rparr>)\<rparr>)
   \<and> map_option select_value
       (shareStorySelect (final_state (handleStoryChange demo_platform
          \<lparr>target_id = ''embed-story-select'', target_value = ''https://x/a''\<rparr>
          (demo_page\<lparr>embedStorySelect := Some (demo_select\<lparr>selectedIndex := 1\<rparr>)\<rparr>))))
     = Some ''https://x/a''
   \<and> map_option select_value
       (embedStorySelect (final_state (handleStoryChange demo_platform
          \<lparr>target_id = ''embed-story-select'', target_value = ''https://x/a''\<rparr>
          (demo_page\<lparr>embedStorySelect := Some (demo_select\<lparr>selectedIndex := 1\<rparr>)\<rparr>))))
     = Some ''https://x/a''"
proof -
  let ?ev = "\<lparr>target_id = ''embed-story-select'', target_value = ''https://x/a''\<rparr>"
  let ?s1 = "demo_page\<lparr>embedStorySelect := Some (demo_select\<lparr>selectedIndex := 1\<rparr>)\<rparr>"
  have pick: "user_selects EmbedSelect 1 demo_page = Some (?ev, ?s1)"
    by (simp add: demo_page_def demo_select_def)
  have share: "shareStorySelect demo_page = Some demo_select"
    and embed: "embedStorySelect demo_page = Some demo_select"
    by (simp_all add: demo_page_def)
  have off: "offers demo_select ''https://x/a''"
    by (simp add: offers_def demo_select_def)
  from story_selection_synchronised [OF pick share embed, of demo_platform] off pick
  show ?thesis by auto
qed

subsection \<open>Title\<close>

lemma title_from_select_label: "title_from_select w = selected_label w"
  by (auto simp: title_from_select_def selected_label_def select_value_def
      split: option.splits prod.splits)

lemma find_catalog_title:
  "map_option story_title (find (\<lambda>st. story_url st = u) stories) = catalog_title u stories"
  by (induction stories) auto

lemma guarded_find_catalog_title:
  "u \<noteq> [] \<Longrightarrow>
   map_option story_title
     (if u \<noteq> [] \<and> length stories > 0 then find (\<lambda>st. story_url st = u) stories else None)
   = catalog_title u stories"
  by (cases stories) (simp_all add: find_catalog_title [symmetric])

text \<open>
  Claim C7. Whenever a story is selected (the only case in which \<^verbatim>\<open>generateEmbedCode\<close>
  asks for a title), \<^verbatim>\<open>getStoryTitle\<close> is the first that applies of: the label of the
  option with a non-empty value selected in the share-tab selector, the same for the
  embed-tab selector, the title of the first catalog entry whose URL is the current one,
  the content of the \<^verbatim>\<open>og:title\<close> meta tag, the non-empty document title, and the literal
  \<^verbatim>\<open>Telar Story\<close>.
\<close>

theorem getStoryTitle_priority:
  assumes "currentStoryUrl s \<noteq> []"
  shows "getStoryTitle s = title_by_priority s"
proof -
  have cat: "map_option story_title
       (if currentStoryUrl s \<noteq> [] \<and> length (availableStories s) > 0
        then find (\<lambda>st. story_url st = currentStoryUrl s) (availableStories s) else None)
     = catalog_title (currentStoryUrl s) (availableStories s)"
    using assms by (rule guarded_find_catalog_title)
  show ?thesis
    unfolding getStoryTitle_def title_by_priority_def title_from_select_label cat [symmetric]
    by (auto split: option.splits)
qed

theorem getStoryTitle_priority_witness:
  "getStoryTitle (demo_page\<lparr>shareStorySelect := Some (demo_select\<lparr>selectedIndex := 1\<rparr>)\<rparr>)
     = ''Story A''
   \<and> getStoryTitle
       (demo_page\<lparr>availableStories :=
          [\<lparr>story_url = ''https://x/a?foo=1#bar'', story_title = ''First''\<rparr>,
           \<lparr>story_url = ''https://x/a?foo=1#bar'', story_title = ''Second''\<rparr>]\<rparr>)
     = ''First''
   \<and> getStoryTitle demo_page = ''Demo''
   \<and> getStoryTitle (demo_page\<lparr>document_title := []\<rparr>) = ''Telar Story''"
proof -
  have u: "currentStoryUrl demo_page \<noteq> []"
    by (simp add: demo_page_def)
  have a: "getStoryTitle (demo_page\<lparr>shareStorySelect := Some (demo_select\<lparr>selectedIndex := 1\<rparr>)\<rparr>)
           = ''Story A''"
    using u
    by (subst getStoryTitle_priority)
      (simp_all add: title_by_priority_def selected_label_def option_at_def demo_page_def
        demo_select_def)
  have b: "getStoryTitle
       (demo_page\<lparr>availableStories :=
          [\<lparr>story_url = ''https://x/a?foo=1#bar'', story_title = ''First''\<rparr>,
           \<lparr>story_url = ''https://x/a?foo=1#bar'', story_title = ''Second''\<rparr>]\<rparr>)
     = ''First''"
    using u
    by (subst getStoryTitle_priority)
      (simp_all add: title_by_priority_def selected_label_def option_at_def demo_page_def
        demo_select_def)
  have c: "getStoryTitle demo_page = ''Demo''"
    using u
    by (subst getStoryTitle_priority)
      (simp_all add: title_by_priority_def selected_label_def option_at_def demo_page_def
        demo_select_def)
  have d: "getStoryTitle (demo_page\<lparr>document_title := []\<rparr>) = ''Telar Story''"
    using u
    by (subst getStoryTitle_priority)
      (simp_all add: title_by_priority_def selected_label_def option_at_def demo_page_def
        demo_select_def)
  from a b c d show ?thesis by simp
qed

subsection \<open>Clipboard\<close>

text \<open>
  Claim C8. When the promise of \<^verbatim>\<open>writeText\<close> rejects, \<^verbatim>\<open>copyToClipboard\<close> returns
  normally, logs the error, raises the manual-copy alert exactly when the text is not empty,
  and leaves the state as it was. When the promise resolves it returns normally too, and the
  selection, the catalog, the dimensions and the derived fields are as before.
\<close>

theorem copy_rejected_is_handled:
  "copyToClipboard WriteRejects text trigger s
     = Inr (ConsoleError ''[Telar Share] Failed to copy:''
            # (if text = [] then [] else [Alert ''Please manually copy the text'']), s)
   \<and> (\<exists>es s'. copyToClipboard WriteResolves text trigger s = Inr (es, s')
         \<and> currentStoryUrl s' = currentStoryUrl s
         \<and> availableStories s' = availableStories s
         \<and> embedWidthInput s' = embedWidthInput s
         \<and> embedHeightInput s' = embedHeightInput s
         \<and> shareUrlInput s' = shareUrlInput s
         \<and> shareSiteUrlInput s' = shareSiteUrlInput s
         \<and> embedCodeTextarea s' = embedCodeTextarea s)"
  by (cases trigger)
    (auto simp: copyToClipboard_def on_copy_failure_def showSuccessFeedback_def Let_def
      split: option.splits)

subsection \<open>Catalog\<close>

text \<open>
  Claim C9. With no catalog entry the selectors keep their options:
  \<^verbatim>\<open>populateStorySelectors\<close> on an empty catalog changes nothing; a catalog text that parses
  to the empty array changes nothing but \<^verbatim>\<open>availableStories\<close>; a catalog text that fails
  to parse changes nothing at all.
\<close>

theorem empty_catalog_leaves_selectors:
  "(availableStories s = [] \<longrightarrow> populateStorySelectors P s = s)
   \<and> (stories_data s = Some txt \<and> json_parse_stories P txt = Some [] \<longrightarrow>
        snd (loadAvailableStories P s) = s\<lparr>availableStories := []\<rparr>
        \<and> shareStorySelect (snd (loadAvailableStories P s)) = shareStorySelect s
        \<and> embedStorySelect (snd (loadAvailableStories P s)) = embedStorySelect s)
   \<and> (stories_data s = Some txt \<and> json_parse_stories P txt = None \<longrightarrow>
        snd (loadAvailableStories P s) = s)"
  by (simp add: populateStorySelectors_def loadAvailableStories_def)

theorem empty_catalog_leaves_selectors_witness:
  "populateStorySelectors demo_platform demo_page = demo_page
   \<and> shareStorySelect (snd (loadAvailableStories demo_platform demo_page)) = Some demo_select
   \<and> embedStorySelect (snd (loadAvailableStories demo_platform demo_page)) = Some demo_select
   \<and> snd (loadAvailableStories demo_platform (demo_page\<lparr>stories_data := Some ''[{''\<rparr>))
     = demo_page\<lparr>stories_data := Some ''[{''\<rparr>"
proof -
  have a: "availableStories demo_page = []"
    and b: "stories_data demo_page = Some ''[]''"
    and c: "json_parse_stories demo_platform ''[]'' = Some []"
    and d: "stories_data (demo_page\<lparr>stories_data := Some ''[{''\<rparr>) = Some ''[{''"
    and e: "json_parse_stories demo_platform ''[{'' = None"
    and f: "shareStorySelect demo_page = Some demo_select"
    and g: "embedStorySelect demo_page = Some demo_select"
    by (simp_all add: demo_page_def demo_platform_def hostless_def)
  show ?thesis
    using empty_catalog_leaves_selectors [of demo_page demo_platform "''[]''"]
      empty_catalog_leaves_selectors [of "demo_page\<lparr>stories_data := Some ''[{''\<rparr>"
        demo_platform "''[{''"]
      a b c d e f g
    by simp
qed

subsection \<open>Opening the panel\<close>

text \<open>
  Claim C10. Opening the panel looks at the share-tab selector only. Without it, whether or
  not the embed-tab selector exists, the selection becomes \<^verbatim>\<open>window.location.href\<close>, the
  copy buttons keep their state and the embed-tab selector keeps its selection; with it the
  selection is emptied and the copy buttons are disabled.
\<close>

theorem panel_open_looks_at_share_selector_only:
  "(shareStorySelect s = None \<longrightarrow>
      handlePanelOpen P s
        = updateEmbedCode P (updateShareUrl P (s\<lparr>currentStoryUrl := location_href s\<rparr>))
      \<and> currentStoryUrl (final_state (handlePanelOpen P s)) = location_href s
      \<and> shareCopyLinkBtn (final_state (handlePanelOpen P s)) = shareCopyLinkBtn s
      \<and> embedCopyCodeBtn (final_state (handlePanelOpen P s)) = embedCopyCodeBtn s
      \<and> embedStorySelect (final_state (handlePanelOpen P s)) = embedStorySelect s)
   \<and> (shareStorySelect s \<noteq> None \<longrightarrow>
      currentStoryUrl (final_state (handlePanelOpen P s)) = []
      \<and> is_disabled (shareCopyLinkBtn (final_state (handlePanelOpen P s)))
      \<and> is_disabled (embedCopyCodeBtn (final_state (handlePanelOpen P s))))"
  by (auto simp: handlePanelOpen_def Let_def updateEmbedCode_frame updateShareUrl_frame
      is_disabled_def split: option.splits)

theorem panel_open_looks_at_share_selector_only_witness:
  "embedStorySelect (demo_page\<lparr>shareStorySelect := None\<rparr>) = Some demo_select
   \<and> currentStoryUrl (final_state (handlePanelOpen demo_platform
        (demo_page\<lparr>shareStorySelect := None, currentStoryUrl := []\<rparr>)))
     = ''https://x/a?foo=1#bar''
   \<and> embedCopyCodeBtn (final_state (handlePanelOpen demo_platform
        (demo_page\<lparr>shareStorySelect := None, currentStoryUrl := []\<rparr>)))
     = Some demo_button
   \<and> \<not> disabled demo_button
   \<and> currentStoryUrl (final_state (handlePanelOpen demo_platform demo_page)) = []"
proof -
  let ?p = "demo_page\<lparr>shareStorySelect := None, currentStoryUrl := []\<rparr>"
  have a: "shareStorySelect ?p = None"
    by simp
  have b: "shareStorySelect demo_page \<noteq> None"
    by (simp add: demo_page_def)
  have c: "currentStoryUrl (final_state (handlePanelOpen demo_platform ?p)) = location_href ?p
           \<and> embedCopyCodeBtn (final_state (handlePanelOpen demo_platform ?p)) = embedCopyCodeBtn ?p"
    using panel_open_looks_at_share_selector_only [of ?p demo_platform] a by blast
  have d: "currentStoryUrl (final_state (handlePanelOpen demo_platform demo_page)) = []"
    using panel_open_looks_at_share_selector_only [of demo_page demo_platform] b by blast
  have e: "location_href ?p = ''https://x/a?foo=1#bar''"
    and f: "embedCopyCodeBtn ?p = Some demo_button"
    and g: "embedStorySelect (demo_page\<lparr>shareStorySelect := None\<rparr>) = Some demo_select"
    by (simp_all add: demo_page_def)
  from c d e f g show ?thesis
    by (simp add: demo_button_def)
qed

subsection \<open>Presets\<close>

text \<open>For a key of the table both fields take the table's pair and the snippet is recomputed;
  for a key that \<^verbatim>\<open>presets[preset]\<close> does not find nothing happens.\<close>

lemma handlePresetChange_table:
  "(map_of presets preset = Some (w, h) \<and> embedWidthInput s \<noteq> None \<and> embedHeightInput s \<noteq> None
      \<longrightarrow> handlePresetChange P preset s
            = updateEmbedCode P (s\<lparr>embedWidthInput := Some w, embedHeightInput := Some h\<rparr>))
   \<and> (presets_get preset = NotFound \<longrightarrow> handlePresetChange P preset s = Inr s)"
  by (auto simp: handlePresetChange_def presets_get_def)

lemma presets_get_not_found:
  "presets_get ''custom'' = NotFound" "presets_get [] = NotFound"
  by (simp_all add: presets_get_def presets_def object_prototype_names_def)

lemma presets_get_mobile: "presets_get ''mobile'' = OwnPreset ''375'' ''500''"
  by (simp add: presets_get_def presets_def)

text \<open>
  Claim C5 says that every key outside the table leaves both dimension fields unchanged.
  The key \<^verbatim>\<open>constructor\<close> is outside the table, yet \<^verbatim>\<open>presets[preset]\<close> finds the
  member inherited from \<^verbatim>\<open>Object.prototype\<close>: both fields are overwritten with the text
  \<^verbatim>\<open>undefined\<close> and the snippet is recomputed from them.
\<close>

theorem handlePresetChange_inherited_key:
  "map_of presets ''constructor'' = None
   \<and> embedWidthInput demo_page = Some ''640''
   \<and> embedHeightInput demo_page = Some ''480''
   \<and> embedWidthInput (final_state (handlePresetChange demo_platform ''constructor'' demo_page))
     = Some ''undefined''
   \<and> embedHeightInput (final_state (handlePresetChange demo_platform ''constructor'' demo_page))
     = Some ''undefined''
   \<and> embedCodeTextarea (final_state (handlePresetChange demo_platform ''constructor'' demo_page))
     = Some (iframe_code ''https://x/a?embed=true'' ''undefined'' ''undefined'' ''Demo'')"
proof -
  have m: "map_of presets ''constructor'' = None"
    by (simp add: presets_def)
  have g: "presets_get ''constructor'' = InheritedMember"
    by (simp add: presets_get_def m object_prototype_names_def)
  have w: "embedWidthInput demo_page = Some ''640''"
    and h: "embedHeightInput demo_page = Some ''480''"
    by (simp_all add: demo_page_def)
  have run: "handlePresetChange demo_platform ''constructor'' demo_page
      = updateEmbedCode demo_platform
          (demo_page\<lparr>embedWidthInput := Some ''undefined'', embedHeightInput := Some ''undefined''\<rparr>)"
    by (simp add: handlePresetChange_found [OF _ w h] g)
  have p: "url_parse demo_platform ''https://x/a?foo=1#bar'' = Some demo_url"
    by (simp add: demo_platform_def hostless_def)
  have url: "addEmbedParameter demo_platform ''https://x/a?foo=1#bar'' = ''https://x/a?embed=true''"
    by (simp add: addEmbedParameter_parsed [OF p] demo_url_def)
  have t: "getStoryTitle
        (demo_page\<lparr>embedWidthInput := Some ''undefined'', embedHeightInput := Some ''undefined''\<rparr>)
      = ''Demo''"
    by (simp add: getStoryTitle_def title_from_select_def select_value_def option_at_def
        demo_page_def demo_select_def)
  have tr: "trim ''undefined'' = ''undefined''"
    by (simp add: trim_def is_space_def)
  have n: "normalizeDimension ''undefined'' = ''undefined''"
    by (simp add: normalizeDimension_def is_digit_def)
  have code: "generateEmbedCode demo_platform
        (demo_page\<lparr>embedWidthInput := Some ''undefined'', embedHeightInput := Some ''undefined''\<rparr>)
      = Inr (iframe_code ''https://x/a?embed=true'' ''undefined'' ''undefined'' ''Demo'')"
    unfolding generateEmbedCode_def t
    by (simp add: demo_page_def url tr n)
  have ta: "embedCodeTextarea demo_page = Some ''old''"
    by (simp add: demo_page_def)
  show ?thesis
    by (simp add: m w h ta run updateEmbedCode_def code final_state_def)
qed

end
